theory Spec2Isabelle
  imports Complex_Main "HOL-Library.Sublist"
begin

text \<open>
  A model of the resilient pipeline of ALIEN: the urgency tiers of the runway tracker,
  the metrics store, the scheduler's registry, the completion client and the deploy
  trigger with their bounded retries, and the output processor with its critical and
  best-effort stages. Each function of the source is a function here, under its own
  name; what it throws is a value \<open>Inl e\<close> of a sum, what it mutates is a state that is
  passed in and returned, and what it calls outside (a dependency, the transport, the
  clock's sleep) is written to a log that is part of the result. The calls of the logger
  are left out, except in the scheduler, where a rejected registration is known by the
  error it logs.
\<close>

section \<open>Values of the runtime\<close>

text \<open>
  The program is TypeScript. A \<open>number\<close> is modelled as a \<^typ>\<open>real\<close> (the tests
  call the threshold functions with values like \<open>2.9\<close>; NaN and the infinities are
  outside the model), a string as a \<^typ>\<open>string\<close> of 8-bit code units.

  A value that is thrown (or with which a promise rejects) is either an \<open>Error\<close>
  object, with its \<open>name\<close>, its \<open>message\<close> and an optional numeric \<open>status\<close>
  property, or some other value, of which the model keeps what \<open>String(v)\<close> renders.
\<close>

datatype thrown =
  ErrorObj (errName: string) (errMessage: string) (errStatus: "int option")
  | NonError (rendering: string)

text \<open>\<open>err instanceof Error ? err.message : dflt\<close>, the idiom of every catch block.\<close>

fun messageOr :: "thrown \<Rightarrow> string \<Rightarrow> string" where
  "messageOr (ErrorObj n m s) dflt = m"
| "messageOr (NonError r) dflt = dflt"

text \<open>
  A value read from JSON. An object keeps its properties as an association list;
  \<open>JSON.parse\<close> yields each key once. \<open>undefined\<close> is not a JSON value: where the
  program can meet it (a missing property) the model has an optional value and
  \<open>None\<close>.
\<close>

datatype json =
  JNull | JBool bool | JNum real | JStr string | JArr "json list"
  | JObj "(string \<times> json) list"

text \<open>
  Reading the property \<open>k\<close> of a value, \<open>v.k\<close>. On \<open>null\<close> the read throws a
  \<open>TypeError\<close> (the wording of its message is the engine's). A primitive or an array
  has none of the properties the program reads (\<open>activities\<close>, \<open>type\<close>, \<open>action\<close>,
  \<open>job\<close>, ...), so the read gives \<open>undefined\<close>.
\<close>

fun getProp :: "json \<Rightarrow> string \<Rightarrow> thrown + json option" where
  "getProp JNull k =
     Inl (ErrorObj ''TypeError'' (''null is not an object (reading '' @ k @ '')'') None)"
| "getProp (JObj kvs) k = Inr (map_of kvs k)"
| "getProp v k = Inr None"

text \<open>Truthiness, as \<open>!v\<close> and \<open>a && b\<close> test it.\<close>

fun truthy :: "json option \<Rightarrow> bool" where
  "truthy None = False"
| "truthy (Some JNull) = False"
| "truthy (Some (JBool b)) = b"
| "truthy (Some (JNum x)) = (x \<noteq> 0)"
| "truthy (Some (JStr s)) = (s \<noteq> [])"
| "truthy (Some (JArr xs)) = True"
| "truthy (Some (JObj kvs)) = True"

text \<open>
  The functions of the runtime's library that the program calls and whose results the
  model does not compute: \<open>JSON.parse\<close> (it throws a \<open>SyntaxError\<close> on malformed
  text) and the conversion to a string that a template literal applies to a value.
\<close>

record Runtime =
  JSON_parse :: "string \<Rightarrow> thrown + json"
  String_of :: "json option \<Rightarrow> string"

subsection \<open>Strings\<close>

text \<open>
  White space as \<open>String.prototype.trim\<close> and the regular expression class \<open>\s\<close>
  take it, restricted to 8-bit code units: tab, line feed, vertical tab, form feed,
  carriage return, space and no-break space.
\<close>

definition isSpace :: "char \<Rightarrow> bool" where
  "isSpace c =
     (c = CHR 0x09 \<or> c = CHR 0x0A \<or> c = CHR 0x0B \<or> c = CHR 0x0C \<or> c = CHR 0x0D
      \<or> c = CHR 0x20 \<or> c = CHR 0xA0)"

definition trim :: "string \<Rightarrow> string" where
  "trim s = rev (dropWhile isSpace (rev (dropWhile isSpace s)))"

text \<open>
  \<open>toLowerCase\<close> on 8-bit code units: the ASCII capitals and the Latin-1 capitals
  (\<open>0xC0\<close> to \<open>0xDE\<close> without the multiplication sign \<open>0xD7\<close>) move up by 32.
\<close>

definition lowerChar :: "char \<Rightarrow> char" where
  "lowerChar c =
     (let n = (of_char c :: nat) in
      if (65 \<le> n \<and> n \<le> 90) \<or> (192 \<le> n \<and> n \<le> 222 \<and> n \<noteq> 215) then char_of (n + 32)
      else c)"

definition toLowerCase :: "string \<Rightarrow> string" where
  "toLowerCase s = map lowerChar s"

text \<open>\<open>hay.includes(needle)\<close>: the needle occurs at some position of the string.\<close>

fun includesStr :: "string \<Rightarrow> string \<Rightarrow> bool" where
  "includesStr [] needle = (needle = [])"
| "includesStr (c # cs) needle = (prefix needle (c # cs) \<or> includesStr cs needle)"

section \<open>Runway tracker: urgency tiers\<close>

datatype UrgencyLevel = Comfortable | Focused | Urgent | Critical

text \<open>\<open>getUrgencyLevel\<close> of \<open>survival/runway-tracker.ts\<close>.\<close>

definition getUrgencyLevel :: "real \<Rightarrow> UrgencyLevel" where
  "getUrgencyLevel runwayDays =
     (if runwayDays < 3 then Critical
      else if runwayDays < 7 then Urgent
      else if runwayDays \<le> 14 then Focused
      else Comfortable)"

text \<open>\<open>calculateUrgencyLevel\<close> of \<open>core/context-builder.ts\<close>, the second table.\<close>

definition calculateUrgencyLevel :: "real \<Rightarrow> UrgencyLevel" where
  "calculateUrgencyLevel runwayDays =
     (if runwayDays < 3 then Critical
      else if runwayDays < 7 then Urgent
      else if runwayDays < 14 then Focused
      else Comfortable)"

text \<open>
  The order of the tiers by urgency, \<open>critical > urgent > focused > comfortable\<close>, as a
  rank. It is the specification's ordering; the source has no such function.
\<close>

fun urgencyRank :: "UrgencyLevel \<Rightarrow> nat" where
  "urgencyRank Comfortable = 0"
| "urgencyRank Focused = 1"
| "urgencyRank Urgent = 2"
| "urgencyRank Critical = 3"

section \<open>Metrics store\<close>

text \<open>\<open>survival/metrics.ts\<close>. A key metric is a string, a number or a boolean.\<close>

datatype scalar = SStr string | SNum real | SBool bool

type_synonym KeyMetrics = "string \<rightharpoonup> scalar"

record Metrics =
  thingsShipped :: real
  revenueTotal :: real
  currentStrategy :: string
  keyMetrics :: KeyMetrics

text \<open>\<open>Partial<Metrics>\<close>: every property may be absent.\<close>

record PartialMetrics =
  thingsShippedP :: "real option"
  revenueTotalP :: "real option"
  currentStrategyP :: "string option"
  keyMetricsP :: "KeyMetrics option"

definition DEFAULT_METRICS :: Metrics where
  "DEFAULT_METRICS =
     \<lparr>thingsShipped = 0, revenueTotal = 0, currentStrategy = [], keyMetrics = Map.empty\<rparr>"

text \<open>
  What the module can see of the file \<open>.alien/metrics.json\<close>: it does not exist, it
  exists and reading it throws, or it holds a text.
\<close>

datatype disk = Absent | Unreadable thrown | File string

text \<open>
  The state the module works on: its cache, the file, what a write to the file would
  throw (\<^term>\<open>None\<close> when the disk takes the write), whether a client for the
  remote store exists or can be made (an API key is configured), and the contents of the
  \<open>memory.create\<close> calls made so far.
\<close>

record MetricsState =
  cachedMetrics :: "Metrics option"
  metricsFile :: disk
  writeFault :: "thrown option"
  apiKeyPresent :: bool
  remoteCreates :: "string list"

fun existsSync :: "disk \<Rightarrow> bool" where
  "existsSync Absent = False"
| "existsSync (Unreadable e) = True"
| "existsSync (File txt) = True"

fun readFileSync :: "disk \<Rightarrow> thrown + string" where
  "readFileSync Absent = Inl (ErrorObj ''Error'' ''ENOENT: no such file or directory'' None)"
| "readFileSync (Unreadable e) = Inl e"
| "readFileSync (File txt) = Inr txt"

text \<open>
  The body of the \<open>try\<close> in \<open>loadFromFile\<close>: \<^term>\<open>Inr None\<close> when it falls through
  without returning, \<^term>\<open>Inl e\<close> when it throws. \<open>parse\<close> is
  \<open>JSON.parse(data) as Metrics\<close>; the cast is unchecked in the source, and the model
  follows the declared type.
\<close>

definition loadAttempt :: "(string \<Rightarrow> thrown + Metrics) \<Rightarrow> disk \<Rightarrow> thrown + Metrics option" where
  "loadAttempt parse d =
     (if existsSync d then
        (case readFileSync d of
           Inl e \<Rightarrow> Inl e
         | Inr txt \<Rightarrow> (case parse txt of Inl e \<Rightarrow> Inl e | Inr m \<Rightarrow> Inr (Some m)))
      else Inr None)"

text \<open>The \<open>catch\<close> is empty, and after it the defaults are returned.\<close>

definition loadFromFile :: "(string \<Rightarrow> thrown + Metrics) \<Rightarrow> disk \<Rightarrow> Metrics" where
  "loadFromFile parse d =
     (case loadAttempt parse d of
        Inr (Some m) \<Rightarrow> m
      | Inr None \<Rightarrow> DEFAULT_METRICS
      | Inl e \<Rightarrow> DEFAULT_METRICS)"

definition saveToFile ::
  "(Metrics \<Rightarrow> string) \<Rightarrow> Metrics \<Rightarrow> MetricsState \<Rightarrow> thrown + MetricsState" where
  "saveToFile stringify metrics s =
     (case writeFault s of
        Some e \<Rightarrow> Inl e
      | None \<Rightarrow> Inr (s\<lparr>metricsFile := File (stringify metrics)\<rparr>))"

text \<open>
  \<open>backupToSupermemory\<close>: without a client nothing happens; with one, \<open>memory.create\<close>
  is called, and whatever it throws is swallowed.
\<close>

definition backupToSupermemory ::
  "(Metrics \<Rightarrow> string) \<Rightarrow> Metrics \<Rightarrow> MetricsState \<Rightarrow> MetricsState" where
  "backupToSupermemory stringify metrics s =
     (if apiKeyPresent s then s\<lparr>remoteCreates := remoteCreates s @ [stringify metrics]\<rparr>
      else s)"

definition getMetrics ::
  "(string \<Rightarrow> thrown + Metrics) \<Rightarrow> MetricsState \<Rightarrow> Metrics \<times> MetricsState" where
  "getMetrics parse s =
     (case cachedMetrics s of
        Some m \<Rightarrow> (m, s)
      | None \<Rightarrow>
          (let m = loadFromFile parse (metricsFile s)
           in (m, s\<lparr>cachedMetrics := Some m\<rparr>)))"

text \<open>
  \<open>updateMetrics\<close>. The cache is assigned before the file is written, so a write that
  throws leaves the merged record in the cache.
\<close>

definition updateMetrics ::
  "(string \<Rightarrow> thrown + Metrics) \<Rightarrow> (Metrics \<Rightarrow> string) \<Rightarrow> PartialMetrics \<Rightarrow> MetricsState
     \<Rightarrow> (thrown + Metrics) \<times> MetricsState" where
  "updateMetrics parse stringify partial s =
     (let (current, s1) = getMetrics parse s;
          updated =
            \<lparr>thingsShipped =
               (case thingsShippedP partial of Some v \<Rightarrow> v | None \<Rightarrow> thingsShipped current),
             revenueTotal =
               (case revenueTotalP partial of Some v \<Rightarrow> v | None \<Rightarrow> revenueTotal current),
             currentStrategy =
               (case currentStrategyP partial of
                  Some v \<Rightarrow> v | None \<Rightarrow> currentStrategy current),
             keyMetrics =
               keyMetrics current ++
                 (case keyMetricsP partial of Some km \<Rightarrow> km | None \<Rightarrow> Map.empty)\<rparr>;
          s2 = s1\<lparr>cachedMetrics := Some updated\<rparr>
      in case saveToFile stringify updated s2 of
           Inl e \<Rightarrow> (Inl e, s2)
         | Inr s3 \<Rightarrow> (Inr updated, backupToSupermemory stringify updated s3))"

section \<open>Scheduler\<close>

text \<open>
  \<open>scheduler/index.ts\<close>. A task of the registry; \<open>job\<close> says whether a cron job has
  been created for it, which \<open>startScheduler\<close> does after the registrations. The
  handler's type is left open.
\<close>

record 'h ScheduledTask =
  name :: string
  schedule :: string
  handler :: 'h
  job :: bool

datatype logLevel = LogDebug | LogInfo | LogWarn | LogError

record 'h SchedulerState =
  tasks :: "'h ScheduledTask list"
  logged :: "(logLevel \<times> string) list"

text \<open>\<open>validate\<close> is \<open>cron.validate\<close> of the node-cron package.\<close>

definition registerTask ::
  "(string \<Rightarrow> bool) \<Rightarrow> string \<Rightarrow> string \<Rightarrow> 'h \<Rightarrow> 'h SchedulerState \<Rightarrow> 'h SchedulerState" where
  "registerTask validate nm sched h s =
     (if \<not> validate sched then
        s\<lparr>logged := logged s @ [(LogError, ''Invalid cron schedule for task: '' @ nm)]\<rparr>
      else
        s\<lparr>tasks := tasks s @ [\<lparr>name = nm, schedule = sched, handler = h, job = False\<rparr>],
          logged := logged s @ [(LogDebug, ''Registered task: '' @ nm)]\<rparr>)"

definition getSchedulerStatus :: "'h SchedulerState \<Rightarrow> (string \<times> string) list" where
  "getSchedulerStatus s = map (\<lambda>task. (name task, schedule task)) (tasks s)"

section \<open>Completion client\<close>

text \<open>
  \<open>core/claude-client.ts\<close>. What \<open>messages.create\<close> resolves with, as far as the
  client reads it: the content blocks and the token counts.
\<close>

record ContentBlock =
  blockType :: string
  blockText :: string

record ApiResponse =
  blocks :: "ContentBlock list"
  input_tokens :: nat
  output_tokens :: nat

record GenerateContentResponse =
  generated :: string
  inputTokens :: nat
  outputTokens :: nat

text \<open>\<open>ClaudeClientError\<close>: its message, the error it wraps and the rate-limit flag.\<close>

record ClaudeClientError =
  clientMessage :: string
  cause :: "thrown option"
  rateLimited :: bool

definition MAX_RETRIES :: nat where
  "MAX_RETRIES = 3"

definition BASE_DELAY_MS :: nat where
  "BASE_DELAY_MS = 1000"

fun isRateLimitError :: "thrown \<Rightarrow> bool" where
  "isRateLimitError (ErrorObj n m st) =
     (if n = ''RateLimitError'' then True
      else if includesStr (toLowerCase m) ''rate limit'' then True
      else if st = Some 429 then True
      else False)"
| "isRateLimitError (NonError r) = False"

text \<open>\<open>error instanceof Error ? error : new Error(String(error))\<close>.\<close>

fun asError :: "thrown \<Rightarrow> thrown" where
  "asError (ErrorObj n m st) = ErrorObj n m st"
| "asError (NonError r) = ErrorObj ''Error'' r None"

text \<open>
  The text of the first block of type \<open>text\<close>, or the empty string when there is
  none.
\<close>

definition textOf :: "ContentBlock list \<Rightarrow> string" where
  "textOf bs = (case find (\<lambda>b. blockType b = ''text'') bs of Some b \<Rightarrow> blockText b | None \<Rightarrow> [])"

text \<open>
  What the client does that the outside can observe: a call of the transport, with the
  number of the attempt, and a sleep, with its milliseconds.
\<close>

datatype clientEvent = ApiCall nat | Sleep nat

text \<open>
  The loop of \<open>generateContent\<close>, from attempt \<open>attempt\<close> on. The transport's behaviour
  is the outcome of each of its invocations, by the number of the attempt that makes
  it: the prompts are the same in every attempt. After the loop the error is built from
  \<open>lastError\<close>; the number of attempts in its message is the constant 3.
\<close>

function generateLoop ::
  "(nat \<Rightarrow> thrown + ApiResponse) \<Rightarrow> nat \<Rightarrow> thrown option \<Rightarrow> clientEvent list
     \<Rightarrow> (ClaudeClientError + GenerateContentResponse) \<times> clientEvent list" where
  "generateLoop transport attempt lastError trace =
     (if attempt \<le> MAX_RETRIES then
        (case transport attempt of
           Inr response \<Rightarrow>
             (Inr \<lparr>generated = textOf (blocks response),
                   inputTokens = input_tokens response,
                   outputTokens = output_tokens response\<rparr>,
              trace @ [ApiCall attempt])
         | Inl error \<Rightarrow>
             generateLoop transport (attempt + 1) (Some (asError error))
               (if attempt < MAX_RETRIES
                then trace @ [ApiCall attempt, Sleep (BASE_DELAY_MS * 2 ^ (attempt - 1))]
                else trace @ [ApiCall attempt]))
      else
        (Inl \<lparr>clientMessage =
                 ''Failed after 3 attempts: '' @
                   (case lastError of Some e \<Rightarrow> errMessage e | None \<Rightarrow> ''undefined''),
               cause = lastError,
               rateLimited = (case lastError of Some e \<Rightarrow> isRateLimitError e | None \<Rightarrow> False)\<rparr>,
         trace))"
  by pat_completeness auto
termination
  by (relation "measure (\<lambda>(transport, attempt, lastError, trace). Suc MAX_RETRIES - attempt)") auto

definition generateContent ::
  "(nat \<Rightarrow> thrown + ApiResponse)
     \<Rightarrow> (ClaudeClientError + GenerateContentResponse) \<times> clientEvent list" where
  "generateContent transport = generateLoop transport 1 None []"

section \<open>Deploy trigger\<close>

text \<open>
  \<open>website/deploy-trigger.ts\<close>. What \<open>fetch\<close> resolves with: the status, from which
  \<open>ok\<close> follows, and what \<open>response.json()\<close> gives, the parsed body or the error it
  rejects with.
\<close>

record FetchResponse =
  status :: nat
  jsonBody :: "thrown + json"

definition ok :: "FetchResponse \<Rightarrow> bool" where
  "ok response = (200 \<le> status response \<and> status response \<le> 299)"

definition getBackoffDelay :: "nat \<Rightarrow> nat" where
  "getBackoffDelay attempt = 1000 * 2 ^ attempt"

definition maxRetries :: nat where
  "maxRetries = 3"

text \<open>
  The body of the \<open>try\<close> for one attempt: \<^term>\<open>Inr True\<close> when it returns \<open>true\<close>,
  \<^term>\<open>Inr False\<close> when it falls through after the warning, \<^term>\<open>Inl e\<close> when it
  throws. For an \<open>ok\<close> response it awaits \<open>response.json()\<close> and reads \<open>data.job?.id\<close>
  for the log line before it returns.
\<close>

definition postOnce :: "thrown + FetchResponse \<Rightarrow> thrown + bool" where
  "postOnce outcome =
     (case outcome of
        Inl e \<Rightarrow> Inl e
      | Inr response \<Rightarrow>
          (if ok response then
             (case jsonBody response of
                Inl e \<Rightarrow> Inl e
              | Inr data \<Rightarrow>
                  (case getProp data ''job'' of Inl e \<Rightarrow> Inl e | Inr j \<Rightarrow> Inr True))
           else Inr False))"

datatype deployEvent = Post nat | Delay nat

text \<open>
  The loop of \<open>triggerDeploy\<close>, attempts counted from 0. The \<open>catch\<close> only logs, so a
  thrown error and a response that is not \<open>ok\<close> continue the same way.
\<close>

function deployLoop ::
  "(nat \<Rightarrow> thrown + FetchResponse) \<Rightarrow> nat \<Rightarrow> deployEvent list \<Rightarrow> bool \<times> deployEvent list" where
  "deployLoop fetch attempt trace =
     (if attempt < maxRetries then
        (case postOnce (fetch attempt) of
           Inr True \<Rightarrow> (True, trace @ [Post attempt])
         | _ \<Rightarrow>
             deployLoop fetch (attempt + 1)
               (if attempt < maxRetries - 1
                then trace @ [Post attempt, Delay (getBackoffDelay attempt)]
                else trace @ [Post attempt]))
      else (False, trace))"
  by pat_completeness auto
termination
  by (relation "measure (\<lambda>(fetch, attempt, trace). maxRetries - attempt)") auto

definition triggerDeploy :: "(nat \<Rightarrow> thrown + FetchResponse) \<Rightarrow> bool \<times> deployEvent list" where
  "triggerDeploy fetch = deployLoop fetch 0 []"

text \<open>The number of \<open>POST\<close> requests in a trace.\<close>

definition posts :: "deployEvent list \<Rightarrow> nat" where
  "posts trace = length (filter (\<lambda>ev. case ev of Post k \<Rightarrow> True | Delay ms \<Rightarrow> False) trace)"

section \<open>Output processor\<close>

text \<open>
  \<open>core/output-processor.ts\<close>. Of the completion response the processor reads the
  content only; the tests also pass a response without one.
\<close>

record ClaudeResponse =
  content :: "string option"

record ContentMetadata =
  day :: real
  hour :: "real option"
  timestamp :: string
  runway_days :: real
  urgency :: string
  current_strategy :: string
  word_count :: nat

record ProcessResult =
  success :: bool
  localSaved :: bool
  memorySaved :: bool
  deployed :: bool
  metricsUpdated :: bool
  errors :: "string list"

text \<open>The object literal handed to the memory store with an update or a journal.\<close>

record MemoryMetadata =
  memType :: string
  memDay :: real
  memHour :: "real option"
  memTimestamp :: string
  memRunwayDays :: real
  memCurrentStrategy :: string

record MetricsSnapshot =
  shippedNow :: real
  revenueNow :: real
  strategyNow :: string

record RunwaySnapshot =
  currentDay :: real
  daysRemaining :: real
  runwayDays :: real
  urgencyLevel :: string

text \<open>
  The dependencies, \<open>OutputProcessorDeps\<close>, one field for each method, named by its
  path in the source. Every method returns a promise; the model has what the promise
  settles with, \<^term>\<open>Inl e\<close> when it rejects with \<open>e\<close>. A run calls each method at
  most once, so a method's behaviour is a function of its arguments. The first argument
  of \<open>storeStrategicLearning\<close> is whatever value \<open>strategy_notes\<close> holds.
\<close>

record OutputProcessorDeps =
  contentWriter_writeHourlyUpdate :: "real \<Rightarrow> real \<Rightarrow> string \<Rightarrow> ContentMetadata \<Rightarrow> thrown + unit"
  contentWriter_writeDailyJournal :: "real \<Rightarrow> string \<Rightarrow> ContentMetadata \<Rightarrow> thrown + unit"
  contentWriter_updateLanding :: "real \<Rightarrow> real \<Rightarrow> real \<Rightarrow> real \<Rightarrow> real \<Rightarrow> string \<Rightarrow> thrown + unit"
  memoryStore_storeHourlyUpdate :: "string \<Rightarrow> MemoryMetadata \<Rightarrow> thrown + bool"
  memoryStore_storeDailyJournal :: "string \<Rightarrow> MemoryMetadata \<Rightarrow> thrown + bool"
  memoryStore_storeStrategicLearning :: "json \<Rightarrow> string \<Rightarrow> real \<Rightarrow> thrown + bool"
  metricsTracker_getMetrics :: "thrown + MetricsSnapshot"
  metricsTracker_setStrategy :: "string \<Rightarrow> thrown + unit"
  runwayTracker_getRunwayStatus :: "thrown + RunwaySnapshot"
  deployTrigger_triggerDeploy :: "thrown + bool"

text \<open>The calls a run makes, in order, each with whether it returned or threw.\<close>

datatype dependency =
  WriteHourlyUpdate | WriteDailyJournal | UpdateLanding
  | StoreHourlyUpdate | StoreDailyJournal | StoreStrategicLearning
  | GetMetrics | SetStrategy | GetRunwayStatus | TriggerDeploy

datatype outcome = Returned | Threw

type_synonym callLog = "(dependency \<times> outcome) list"

fun outcomeOf :: "thrown + 'a \<Rightarrow> outcome" where
  "outcomeOf (Inl e) = Threw"
| "outcomeOf (Inr v) = Returned"

definition emptyResponseError :: thrown where
  "emptyResponseError = ErrorObj ''Error'' ''Empty response content from Claude'' None"

definition parseContent :: "ClaudeResponse \<Rightarrow> thrown + string" where
  "parseContent response =
     (case content response of
        None \<Rightarrow> Inl emptyResponseError
      | Some s \<Rightarrow>
          (if s = [] then Inl emptyResponseError
           else (let trimmed = trim s
                 in if trimmed = [] then Inl emptyResponseError else Inr trimmed)))"

text \<open>
  \<open>content.split(/\s+/)\<close>: the pieces between the maximal runs of white space, an
  empty piece before a leading run and after a trailing one. \<open>cur\<close> is the piece being
  read, reversed, and \<open>inSep\<close> says that the last character was white space.
\<close>

fun splitSpaces :: "string \<Rightarrow> bool \<Rightarrow> string \<Rightarrow> string list" where
  "splitSpaces cur inSep [] = [rev cur]"
| "splitSpaces cur inSep (c # cs) =
     (if isSpace c then
        (if inSep then splitSpaces cur True cs else rev cur # splitSpaces [] True cs)
      else splitSpaces (c # cur) False cs)"

definition countWords :: "string \<Rightarrow> nat" where
  "countWords s = length (filter (\<lambda>word. length word > 0) (splitSpaces [] False s))"

definition createFailedResult :: "string list \<Rightarrow> ProcessResult" where
  "createFailedResult errs =
     \<lparr>success = False, localSaved = False, memorySaved = False, deployed = False,
      metricsUpdated = False, errors = errs\<rparr>"

text \<open>The local variables of a run at its start.\<close>

definition initialResult :: ProcessResult where
  "initialResult =
     \<lparr>success = False, localSaved = False, memorySaved = False, deployed = False,
      metricsUpdated = False, errors = []\<rparr>"

text \<open>
  Step 2, \<open>Promise.all\<close> over the two status calls: both are made, and the step fails
  when one of them rejects. When both reject the model reports the runway tracker's
  error, the first in the array.
\<close>

definition gatherStatus :: "OutputProcessorDeps \<Rightarrow> thrown + (RunwaySnapshot \<times> MetricsSnapshot)" where
  "gatherStatus deps =
     (case runwayTracker_getRunwayStatus deps of
        Inl e \<Rightarrow> Inl e
      | Inr runwayStatus \<Rightarrow>
          (case metricsTracker_getMetrics deps of
             Inl e \<Rightarrow> Inl e
           | Inr metrics \<Rightarrow> Inr (runwayStatus, metrics)))"

definition gatherLog :: "OutputProcessorDeps \<Rightarrow> callLog" where
  "gatherLog deps =
     [(GetRunwayStatus, outcomeOf (runwayTracker_getRunwayStatus deps)),
      (GetMetrics, outcomeOf (metricsTracker_getMetrics deps))]"

text \<open>
  Steps 3 to 6, each a \<open>try\<close> with its \<open>catch\<close>, on the local variables and the log.
  Each takes the outcome of the call it makes. Step 3 is the same in both pipelines up
  to the method called, and so is step 4; steps 5 and 6 are the same text.
\<close>

fun saveLocally ::
  "dependency \<Rightarrow> thrown + unit \<Rightarrow> ProcessResult \<times> callLog \<Rightarrow> ProcessResult \<times> callLog" where
  "saveLocally dep (Inr u) (res, calls) = (res\<lparr>localSaved := True\<rparr>, calls @ [(dep, Returned)])"
| "saveLocally dep (Inl err) (res, calls) =
     (res\<lparr>errors := errors res @ [''Local save failed: '' @ messageOr err ''Failed to save locally'']\<rparr>,
      calls @ [(dep, Threw)])"

fun storeInMemory ::
  "dependency \<Rightarrow> thrown + bool \<Rightarrow> ProcessResult \<times> callLog \<Rightarrow> ProcessResult \<times> callLog" where
  "storeInMemory dep (Inr stored) (res, calls) =
     (if stored then (res\<lparr>memorySaved := True\<rparr>, calls @ [(dep, Returned)])
      else (res\<lparr>memorySaved := False,
                errors := errors res @ [''Memory store returned unsuccessful'']\<rparr>,
            calls @ [(dep, Returned)]))"
| "storeInMemory dep (Inl err) (res, calls) =
     (res\<lparr>errors := errors res @ [''Memory store failed: '' @ messageOr err ''Memory store error'']\<rparr>,
      calls @ [(dep, Threw)])"

fun landingStep :: "thrown + unit \<Rightarrow> ProcessResult \<times> callLog \<Rightarrow> ProcessResult \<times> callLog" where
  "landingStep (Inr u) (res, calls) =
     (res\<lparr>metricsUpdated := True\<rparr>, calls @ [(UpdateLanding, Returned)])"
| "landingStep (Inl err) (res, calls) =
     (res\<lparr>errors := errors res @ [''Landing update failed: '' @ messageOr err ''Landing update error'']\<rparr>,
      calls @ [(UpdateLanding, Threw)])"

fun deployStep :: "thrown + bool \<Rightarrow> ProcessResult \<times> callLog \<Rightarrow> ProcessResult \<times> callLog" where
  "deployStep (Inr triggered) (res, calls) =
     (if triggered then (res\<lparr>deployed := True\<rparr>, calls @ [(TriggerDeploy, Returned)])
      else (res\<lparr>deployed := False, errors := errors res @ [''Deploy trigger returned false'']\<rparr>,
            calls @ [(TriggerDeploy, Returned)]))"
| "deployStep (Inl err) (res, calls) =
     (res\<lparr>errors := errors res @ [''Deploy failed: '' @ messageOr err ''Deploy error'']\<rparr>,
      calls @ [(TriggerDeploy, Threw)])"

text \<open>\<open>const success = localSaved\<close>, and the result is returned.\<close>

fun finish :: "ProcessResult \<times> callLog \<Rightarrow> ProcessResult \<times> callLog" where
  "finish (res, calls) = (res\<lparr>success := localSaved res\<rparr>, calls)"

text \<open>
  \<open>processHourlyOutput\<close>. \<open>now\<close> is the time stamp \<open>new Date().toISOString()\<close> gives
  when the metadata is built.
\<close>

definition processHourlyOutput ::
  "string \<Rightarrow> ClaudeResponse \<Rightarrow> real \<Rightarrow> real \<Rightarrow> OutputProcessorDeps \<Rightarrow> ProcessResult \<times> callLog" where
  "processHourlyOutput now response d h deps =
     (case parseContent response of
        Inl err \<Rightarrow> (createFailedResult [messageOr err ''Failed to parse content''], [])
      | Inr trimmed \<Rightarrow>
          (case gatherStatus deps of
             Inl err \<Rightarrow> (createFailedResult [messageOr err ''Failed to get status''], gatherLog deps)
           | Inr (runwayStatus, metrics) \<Rightarrow>
               (let metadata =
                      \<lparr>day = d, hour = Some h, timestamp = now,
                       runway_days = runwayDays runwayStatus,
                       urgency = urgencyLevel runwayStatus,
                       current_strategy = strategyNow metrics,
                       word_count = countWords trimmed\<rparr>
                in finish
                  (deployStep (deployTrigger_triggerDeploy deps)
                  (landingStep
                     (contentWriter_updateLanding deps d (daysRemaining runwayStatus)
                        (runwayDays runwayStatus) (shippedNow metrics) (revenueNow metrics)
                        (strategyNow metrics))
                  (storeInMemory StoreHourlyUpdate
                     (memoryStore_storeHourlyUpdate deps trimmed
                        \<lparr>memType = ''hourly_update'', memDay = d, memHour = Some h,
                         memTimestamp = timestamp metadata,
                         memRunwayDays = runway_days metadata,
                         memCurrentStrategy = current_strategy metadata\<rparr>)
                  (saveLocally WriteHourlyUpdate
                     (contentWriter_writeHourlyUpdate deps d h trimmed metadata)
                  (initialResult, gatherLog deps))))))))"

text \<open>
  \<open>processJournalOutput\<close>. The check of the journal's length only logs a warning.
\<close>

definition processJournalOutput ::
  "string \<Rightarrow> ClaudeResponse \<Rightarrow> real \<Rightarrow> OutputProcessorDeps \<Rightarrow> ProcessResult \<times> callLog" where
  "processJournalOutput now response d deps =
     (case parseContent response of
        Inl err \<Rightarrow> (createFailedResult [messageOr err ''Failed to parse content''], [])
      | Inr trimmed \<Rightarrow>
          (case gatherStatus deps of
             Inl err \<Rightarrow> (createFailedResult [messageOr err ''Failed to get status''], gatherLog deps)
           | Inr (runwayStatus, metrics) \<Rightarrow>
               (let metadata =
                      \<lparr>day = d, hour = None, timestamp = now,
                       runway_days = runwayDays runwayStatus,
                       urgency = urgencyLevel runwayStatus,
                       current_strategy = strategyNow metrics,
                       word_count = countWords trimmed\<rparr>
                in finish
                  (deployStep (deployTrigger_triggerDeploy deps)
                  (landingStep
                     (contentWriter_updateLanding deps d (daysRemaining runwayStatus)
                        (runwayDays runwayStatus) (shippedNow metrics) (revenueNow metrics)
                        (strategyNow metrics))
                  (storeInMemory StoreDailyJournal
                     (memoryStore_storeDailyJournal deps trimmed
                        \<lparr>memType = ''daily_journal'', memDay = d, memHour = None,
                         memTimestamp = timestamp metadata,
                         memRunwayDays = runway_days metadata,
                         memCurrentStrategy = current_strategy metadata\<rparr>)
                  (saveLocally WriteDailyJournal
                     (contentWriter_writeDailyJournal deps d trimmed metadata)
                  (initialResult, gatherLog deps))))))))"

subsection \<open>The decision pipeline\<close>

text \<open>
  The first match of the regular expression \<open>/```(?:json)?\s*([\s\S]*?)```/\<close>.
  \<open>splitAtFence\<close> cuts a string at its first run of three backticks. The expression
  matches at the first fence that has another one after it: what follows the first
  fence loses an optional \<open>json\<close> and the white space after it, and the group is the
  text up to the next fence.
\<close>

fun splitAtFence :: "string \<Rightarrow> (string \<times> string) option" where
  "splitAtFence [] = None"
| "splitAtFence (c # cs) =
     (if prefix ''```'' (c # cs) then Some ([], drop 3 (c # cs))
      else map_option (\<lambda>(before, after). (c # before, after)) (splitAtFence cs))"

definition matchFence :: "string \<Rightarrow> string option" where
  "matchFence s =
     (case splitAtFence s of
        None \<Rightarrow> None
      | Some (before, rest) \<Rightarrow>
          (let unlabelled = (if prefix ''json'' rest then drop 4 rest else rest)
           in case splitAtFence (dropWhile isSpace unlabelled) of
                None \<Rightarrow> None
              | Some (captured, after) \<Rightarrow> Some captured))"

text \<open>
  The decision after validation: the parsed object, which is what the caller gets, and
  the properties the processor goes on to read. \<open>strategy_notes\<close> is not validated and
  may hold any value or none.
\<close>

record ActivityDecision =
  parsedObject :: json
  activities :: "json list"
  urgency_assessment :: string
  confidence_in_strategy :: real
  strategy_notes :: "json option"

definition ACTIVITY_TYPES :: "string list" where
  "ACTIVITY_TYPES = [''BUILD'', ''WRITE'', ''RESEARCH'', ''ANALYZE'', ''ITERATE'', ''SHIP'']"

text \<open>\<open>[...].includes(activity.type)\<close>: only a string equal to one of the six is in.\<close>

fun isActivityType :: "json option \<Rightarrow> bool" where
  "isActivityType (Some (JStr s)) = (s \<in> set ACTIVITY_TYPES)"
| "isActivityType v = False"

text \<open>\<open>Array.isArray(v)\<close>, \<open>typeof v === "string"\<close> and \<open>typeof v === "number"\<close>.\<close>

fun asArray :: "json option \<Rightarrow> json list option" where
  "asArray (Some (JArr xs)) = Some xs"
| "asArray v = None"

fun asString :: "json option \<Rightarrow> string option" where
  "asString (Some (JStr s)) = Some s"
| "asString v = None"

fun asNumber :: "json option \<Rightarrow> real option" where
  "asNumber (Some (JNum x)) = Some x"
| "asNumber v = None"

definition plainError :: "string \<Rightarrow> thrown" where
  "plainError msg = ErrorObj ''Error'' msg None"

text \<open>The loop over the activities; it stops at the first one it throws on.\<close>

fun validateActivities :: "Runtime \<Rightarrow> json list \<Rightarrow> thrown + unit" where
  "validateActivities rt [] = Inr ()"
| "validateActivities rt (activity # rest) =
     (case getProp activity ''type'' of
        Inl e \<Rightarrow> Inl e
      | Inr ty \<Rightarrow>
          (if \<not> isActivityType ty
           then Inl (plainError (''Invalid activity type: '' @ String_of rt ty))
           else
             (case getProp activity ''action'' of
                Inl e \<Rightarrow> Inl e
              | Inr action \<Rightarrow>
                  (if \<not> truthy action
                   then Inl (plainError ''Activity missing action or reasoning'')
                   else
                     (case getProp activity ''reasoning'' of
                        Inl e \<Rightarrow> Inl e
                      | Inr reasoning \<Rightarrow>
                          (if \<not> truthy reasoning
                           then Inl (plainError ''Activity missing action or reasoning'')
                           else validateActivities rt rest))))))"

text \<open>The body of the \<open>try\<close> in \<open>parseActivityDecision\<close>.\<close>

definition validateDecision :: "Runtime \<Rightarrow> string \<Rightarrow> thrown + ActivityDecision" where
  "validateDecision rt jsonStr =
     (case JSON_parse rt jsonStr of
        Inl e \<Rightarrow> Inl e
      | Inr parsed \<Rightarrow>
          (case getProp parsed ''activities'' of
             Inl e \<Rightarrow> Inl e
           | Inr acts \<Rightarrow>
               (case asArray acts of
                  None \<Rightarrow> Inl (plainError ''Missing activities array'')
                | Some activityList \<Rightarrow>
                    (case getProp parsed ''urgency_assessment'' of
                       Inl e \<Rightarrow> Inl e
                     | Inr ua \<Rightarrow>
                         (case asString ua of
                            None \<Rightarrow> Inl (plainError ''Missing urgency_assessment'')
                          | Some assessment \<Rightarrow>
                              (case getProp parsed ''confidence_in_strategy'' of
                                 Inl e \<Rightarrow> Inl e
                               | Inr cs \<Rightarrow>
                                   (case asNumber cs of
                                      None \<Rightarrow> Inl (plainError ''Missing confidence_in_strategy'')
                                    | Some confidence \<Rightarrow>
                                        (case validateActivities rt activityList of
                                           Inl e \<Rightarrow> Inl e
                                         | Inr u \<Rightarrow>
                                             Inr \<lparr>parsedObject = parsed,
                                                  activities = activityList,
                                                  urgency_assessment = assessment,
                                                  confidence_in_strategy = confidence,
                                                  strategy_notes =
                                                    (case getProp parsed ''strategy_notes'' of
                                                       Inl e \<Rightarrow> None
                                                     | Inr notes \<Rightarrow> notes)\<rparr>))))))))"

text \<open>
  The text handed to \<open>JSON.parse\<close>: the trimmed group of the fence when the content has
  one, the whole trimmed content otherwise.
\<close>

definition jsonText :: "string \<Rightarrow> string" where
  "jsonText trimmed = (case matchFence trimmed of Some captured \<Rightarrow> trim captured | None \<Rightarrow> trimmed)"

text \<open>
  \<open>parseActivityDecision\<close>. \<open>parseContent\<close> is called before the \<open>try\<close>, so its error
  leaves as it is; an error of the body is wrapped in a new one.
\<close>

definition parseActivityDecision :: "Runtime \<Rightarrow> ClaudeResponse \<Rightarrow> thrown + ActivityDecision" where
  "parseActivityDecision rt response =
     (case parseContent response of
        Inl e \<Rightarrow> Inl e
      | Inr trimmed \<Rightarrow>
          (case validateDecision rt (jsonText trimmed) of
             Inl err \<Rightarrow>
               Inl (plainError
                      (''Failed to parse activity decision JSON: '' @ messageOr err ''Unknown error''))
           | Inr decision \<Rightarrow> Inr decision))"





text \<open>
  The conditions of the validation, stated on the parsed value: an object whose
  \<open>activities\<close> is an array of objects, each with a type among the six and a truthy
  action and reasoning, whose \<open>urgency_assessment\<close> is a string and whose
  \<open>confidence_in_strategy\<close> is a number.
\<close>

fun wellFormedActivity :: "json \<Rightarrow> bool" where
  "wellFormedActivity (JObj kvs) =
     (isActivityType (map_of kvs ''type'') \<and> truthy (map_of kvs ''action'')
      \<and> truthy (map_of kvs ''reasoning''))"
| "wellFormedActivity v = False"

fun wellFormedDecision :: "json \<Rightarrow> bool" where
  "wellFormedDecision (JObj kvs) =
     ((case asArray (map_of kvs ''activities'') of
         None \<Rightarrow> False
       | Some xs \<Rightarrow> list_all wellFormedActivity xs)
      \<and> asString (map_of kvs ''urgency_assessment'') \<noteq> None
      \<and> asNumber (map_of kvs ''confidence_in_strategy'') \<noteq> None)"
| "wellFormedDecision v = False"

text \<open>
  The value \<open>JSON.parse\<close> returns for a response, when the content is not empty and
  the text parses.
\<close>

definition parsedValue :: "Runtime \<Rightarrow> ClaudeResponse \<Rightarrow> json option" where
  "parsedValue rt response =
     (case parseContent response of
        Inl e \<Rightarrow> None
      | Inr trimmed \<Rightarrow>
          (case JSON_parse rt (jsonText trimmed) of Inl e \<Rightarrow> None | Inr v \<Rightarrow> Some v))"

section \<open>Example inputs\<close>






text \<open>
  Dependencies as the test suite mocks them: every method succeeds. A variant has a
  content writer whose writes reject with \<open>Disk full\<close>.
\<close>

definition exampleDeps :: OutputProcessorDeps where
  "exampleDeps =
     \<lparr>contentWriter_writeHourlyUpdate = (\<lambda>d h c m. Inr ()),
      contentWriter_writeDailyJournal = (\<lambda>d c m. Inr ()),
      contentWriter_updateLanding = (\<lambda>cd dr rd ts rt cs. Inr ()),
      memoryStore_storeHourlyUpdate = (\<lambda>c m. Inr True),
      memoryStore_storeDailyJournal = (\<lambda>c m. Inr True),
      memoryStore_storeStrategicLearning = (\<lambda>c cat conf. Inr True),
      metricsTracker_getMetrics =
        Inr \<lparr>shippedNow = 5, revenueNow = 100, strategyNow = ''Build valuable tools''\<rparr>,
      metricsTracker_setStrategy = (\<lambda>s. Inr ()),
      runwayTracker_getRunwayStatus =
        Inr \<lparr>currentDay = 10, daysRemaining = 90, runwayDays = 8, urgencyLevel = ''focused''\<rparr>,
      deployTrigger_triggerDeploy = Inr True\<rparr>"

definition diskFullDeps :: OutputProcessorDeps where
  "diskFullDeps =
     exampleDeps
       \<lparr>contentWriter_writeHourlyUpdate := (\<lambda>d h c m. Inl (ErrorObj ''Error'' ''Disk full'' None)),
        contentWriter_writeDailyJournal := (\<lambda>d c m. Inl (ErrorObj ''Error'' ''Disk full'' None))\<rparr>"

section \<open>Theorems\<close>

subsection \<open>Urgency tiers\<close>

text \<open>
  Claim C6, as the code has it. For every number of runway days, the runway tracker's
  \<open>getUrgencyLevel\<close> returns critical below 3, urgent from 3 up to but excluding 7,
  focused from 7 up to and including 14, and comfortable above 14.
\<close>

theorem getUrgencyLevel_tiers:
  "(d < 3 \<longrightarrow> getUrgencyLevel d = Critical) \<and>
   (3 \<le> d \<and> d < 7 \<longrightarrow> getUrgencyLevel d = Urgent) \<and>
   (7 \<le> d \<and> d \<le> 14 \<longrightarrow> getUrgencyLevel d = Focused) \<and>
   (14 < d \<longrightarrow> getUrgencyLevel d = Comfortable)"
  by (simp add: getUrgencyLevel_def)

theorem getUrgencyLevel_tiers_witness:
  "getUrgencyLevel 2.9 = Critical \<and> getUrgencyLevel 3 = Urgent \<and>
   getUrgencyLevel 7 = Focused \<and> getUrgencyLevel 14 = Focused \<and>
   getUrgencyLevel 15 = Comfortable"
  using getUrgencyLevel_tiers [of "2.9"] getUrgencyLevel_tiers [of 3]
    getUrgencyLevel_tiers [of 7] getUrgencyLevel_tiers [of 14]
    getUrgencyLevel_tiers [of 15]
  by simp

text \<open>
  The claim as written puts 14 days in the comfortable tier. The runway tracker answers
  focused there; its test suite expects exactly that.
\<close>

theorem getUrgencyLevel_at_14_counterexample:
  "getUrgencyLevel 14 = Focused \<and> getUrgencyLevel 14 \<noteq> Comfortable"
  by (simp add: getUrgencyLevel_def)

text \<open>The table with the strict bound at 14 is the context builder's.\<close>

lemma calculateUrgencyLevel_at_14: "calculateUrgencyLevel 14 = Comfortable"
  by (simp add: calculateUrgencyLevel_def)

text \<open>
  Claim C7. For every pair of runway-day values \<open>d1 \<le> d2\<close>, the tier of \<open>d1\<close> is at
  least as urgent as the tier of \<open>d2\<close>: urgency is a non-increasing step function of
  the runway days.
\<close>

theorem getUrgencyLevel_antimono:
  assumes "d1 \<le> d2"
  shows "urgencyRank (getUrgencyLevel d2) \<le> urgencyRank (getUrgencyLevel d1)"
  using assms by (simp add: getUrgencyLevel_def)

theorem getUrgencyLevel_antimono_witness:
  "(5::real) \<le> 10 \<and> urgencyRank (getUrgencyLevel 10) \<le> urgencyRank (getUrgencyLevel 5)"
proof -
  have le: "(5::real) \<le> 10" by simp
  from getUrgencyLevel_antimono [OF le] le show ?thesis by simp
qed

subsection \<open>Metrics store\<close>

lemma loadFromFile_Absent: "loadFromFile parse Absent = DEFAULT_METRICS"
  by (simp add: loadFromFile_def loadAttempt_def)

lemma loadFromFile_Unreadable: "loadFromFile parse (Unreadable e) = DEFAULT_METRICS"
  by (simp add: loadFromFile_def loadAttempt_def)

lemma loadFromFile_corrupt:
  "parse txt = Inl e \<Longrightarrow> loadFromFile parse (File txt) = DEFAULT_METRICS"
  by (simp add: loadFromFile_def loadAttempt_def)

lemma loadFromFile_parsed:
  "parse txt = Inr m \<Longrightarrow> loadFromFile parse (File txt) = m"
  by (simp add: loadFromFile_def loadAttempt_def)

lemma getMetrics_cached:
  "cachedMetrics s = Some m \<Longrightarrow> getMetrics parse s = (m, s)"
  by (simp add: getMetrics_def)

text \<open>
  Claim C10, as the code has it. \<open>getMetrics\<close> never raises. When the metrics file is
  absent, or is there and cannot be read, or holds a text that \<open>JSON.parse\<close> rejects,
  the error stays inside \<open>loadFromFile\<close>: with a record in the cache \<open>getMetrics\<close>
  returns that record and leaves the state as it is, and with nothing in the cache it
  returns the default record, zero shipped, zero revenue, the empty strategy and no key
  metrics, which is then the cached value.
\<close>

theorem getMetrics_cached_or_defaults:
  assumes "metricsFile s = Absent \<or> (\<exists>e. metricsFile s = Unreadable e)
         \<or> (\<exists>txt e. metricsFile s = File txt \<and> parse txt = Inl e)"
  shows "getMetrics parse s =
           (case cachedMetrics s of
              Some m \<Rightarrow> (m, s)
            | None \<Rightarrow>
                (\<lparr>thingsShipped = 0, revenueTotal = 0, currentStrategy = [],
                  keyMetrics = Map.empty\<rparr>,
                 s\<lparr>cachedMetrics :=
                     Some \<lparr>thingsShipped = 0, revenueTotal = 0, currentStrategy = [],
                           keyMetrics = Map.empty\<rparr>\<rparr>))"
proof -
  from assms have "loadFromFile parse (metricsFile s) = DEFAULT_METRICS"
    by (auto simp: loadFromFile_Absent loadFromFile_Unreadable loadFromFile_corrupt)
  then show ?thesis
    by (simp add: getMetrics_def DEFAULT_METRICS_def Let_def split: option.splits)
qed

theorem getMetrics_cached_or_defaults_witness:
  "fst (getMetrics (\<lambda>txt. Inl (ErrorObj ''SyntaxError'' ''Unexpected token'' None))
         \<lparr>cachedMetrics = None, metricsFile = File ''{ thingsShipped'', writeFault = None,
          apiKeyPresent = False, remoteCreates = []\<rparr>) =
     \<lparr>thingsShipped = 0, revenueTotal = 0, currentStrategy = [], keyMetrics = Map.empty\<rparr>
   \<and> fst (getMetrics (\<lambda>txt. Inl (ErrorObj ''SyntaxError'' ''Unexpected token'' None))
         \<lparr>cachedMetrics = None, metricsFile = Absent, writeFault = None,
          apiKeyPresent = False, remoteCreates = []\<rparr>) =
     \<lparr>thingsShipped = 0, revenueTotal = 0, currentStrategy = [], keyMetrics = Map.empty\<rparr>
   \<and> fst (getMetrics (\<lambda>txt. Inl (ErrorObj ''SyntaxError'' ''Unexpected token'' None))
         \<lparr>cachedMetrics =
            Some \<lparr>thingsShipped = 9, revenueTotal = 0, currentStrategy = [],
                  keyMetrics = Map.empty\<rparr>,
          metricsFile = Unreadable (ErrorObj ''Error'' ''EACCES: permission denied'' None),
          writeFault = None, apiKeyPresent = False, remoteCreates = []\<rparr>) =
     \<lparr>thingsShipped = 9, revenueTotal = 0, currentStrategy = [], keyMetrics = Map.empty\<rparr>"
  using getMetrics_cached_or_defaults
      [of "\<lparr>cachedMetrics = None, metricsFile = File ''{ thingsShipped'', writeFault = None,
            apiKeyPresent = False, remoteCreates = []\<rparr>"
          "\<lambda>txt. Inl (ErrorObj ''SyntaxError'' ''Unexpected token'' None)"]
    getMetrics_cached_or_defaults
      [of "\<lparr>cachedMetrics = None, metricsFile = Absent, writeFault = None,
            apiKeyPresent = False, remoteCreates = []\<rparr>"
          "\<lambda>txt. Inl (ErrorObj ''SyntaxError'' ''Unexpected token'' None)"]
    getMetrics_cached_or_defaults
      [of "\<lparr>cachedMetrics =
               Some \<lparr>thingsShipped = 9, revenueTotal = 0, currentStrategy = [],
                     keyMetrics = Map.empty\<rparr>,
             metricsFile = Unreadable (ErrorObj ''Error'' ''EACCES: permission denied'' None),
             writeFault = None, apiKeyPresent = False, remoteCreates = []\<rparr>"
          "\<lambda>txt. Inl (ErrorObj ''SyntaxError'' ''Unexpected token'' None)"]
  by simp

text \<open>
  The claim as written gives the default record whenever the file is absent or
  corrupt. With a record in the cache, here one with nine things shipped, and the file
  absent, \<open>getMetrics\<close> returns the cached record.
\<close>

theorem getMetrics_cached_record_counterexample:
  "metricsFile \<lparr>cachedMetrics =
                  Some \<lparr>thingsShipped = 9, revenueTotal = 0, currentStrategy = [],
                        keyMetrics = Map.empty\<rparr>,
                metricsFile = Absent, writeFault = None, apiKeyPresent = False,
                remoteCreates = []\<rparr> = Absent
   \<and> thingsShipped
       (fst (getMetrics (\<lambda>txt. Inl (ErrorObj ''SyntaxError'' ''Unexpected token'' None))
          \<lparr>cachedMetrics =
             Some \<lparr>thingsShipped = 9, revenueTotal = 0, currentStrategy = [],
                   keyMetrics = Map.empty\<rparr>,
           metricsFile = Absent, writeFault = None, apiKeyPresent = False,
           remoteCreates = []\<rparr>)) = 9
   \<and> fst (getMetrics (\<lambda>txt. Inl (ErrorObj ''SyntaxError'' ''Unexpected token'' None))
          \<lparr>cachedMetrics =
             Some \<lparr>thingsShipped = 9, revenueTotal = 0, currentStrategy = [],
                   keyMetrics = Map.empty\<rparr>,
           metricsFile = Absent, writeFault = None, apiKeyPresent = False,
           remoteCreates = []\<rparr>)
       \<noteq> \<lparr>thingsShipped = 0, revenueTotal = 0, currentStrategy = [],
           keyMetrics = Map.empty\<rparr>"
  by (simp add: getMetrics_def)

text \<open>
  Claim C8. For every partial update \<open>p\<close> and every metrics state, with \<open>m\<close> the
  current record (the cached one, or the one loaded when nothing is cached), on a disk
  that takes the write, \<open>updateMetrics p\<close> returns a record \<open>u\<close> in which each of
  \<open>thingsShipped\<close>, \<open>revenueTotal\<close> and \<open>currentStrategy\<close> is the value of \<open>p\<close> when
  \<open>p\<close> has one and the old value otherwise, and whose \<open>keyMetrics\<close> are those of \<open>m\<close>
  overridden key by key by those of \<open>p\<close>; \<open>u\<close> is the new cached value, and the file
  holds the serialisation of the whole of \<open>u\<close>.
\<close>

theorem updateMetrics_merges_and_persists:
  assumes "writeFault s = None" and "m = fst (getMetrics parse s)"
  shows "\<exists>u s'. updateMetrics parse stringify p s = (Inr u, s')
     \<and> (\<forall>v. thingsShippedP p = Some v \<longrightarrow> thingsShipped u = v)
     \<and> (thingsShippedP p = None \<longrightarrow> thingsShipped u = thingsShipped m)
     \<and> (\<forall>v. revenueTotalP p = Some v \<longrightarrow> revenueTotal u = v)
     \<and> (revenueTotalP p = None \<longrightarrow> revenueTotal u = revenueTotal m)
     \<and> (\<forall>v. currentStrategyP p = Some v \<longrightarrow> currentStrategy u = v)
     \<and> (currentStrategyP p = None \<longrightarrow> currentStrategy u = currentStrategy m)
     \<and> (\<forall>km. keyMetricsP p = Some km \<longrightarrow> keyMetrics u = keyMetrics m ++ km)
     \<and> (keyMetricsP p = None \<longrightarrow> keyMetrics u = keyMetrics m)
     \<and> cachedMetrics s' = Some u
     \<and> metricsFile s' = File (stringify u)"
proof (cases "cachedMetrics s")
  case None
  with assms show ?thesis
    by (auto simp: updateMetrics_def getMetrics_def saveToFile_def backupToSupermemory_def
        Let_def)
next
  case (Some c)
  with assms show ?thesis
    by (auto simp: updateMetrics_def getMetrics_def saveToFile_def backupToSupermemory_def
        Let_def)
qed

theorem updateMetrics_merges_and_persists_witness:
  "\<exists>u s'. updateMetrics (\<lambda>txt. Inl (NonError txt)) currentStrategy
       \<lparr>thingsShippedP = Some 5, revenueTotalP = None, currentStrategyP = None,
        keyMetricsP = Some [''baz'' \<mapsto> SNum 123]\<rparr>
       \<lparr>cachedMetrics = Some \<lparr>thingsShipped = 2, revenueTotal = 100, currentStrategy = ''growth'',
                                keyMetrics = [''foo'' \<mapsto> SStr ''bar'']\<rparr>,
        metricsFile = Absent, writeFault = None, apiKeyPresent = False, remoteCreates = []\<rparr>
       = (Inr u, s')
     \<and> thingsShipped u = 5 \<and> revenueTotal u = 100 \<and> currentStrategy u = ''growth''
     \<and> keyMetrics u ''foo'' = Some (SStr ''bar'') \<and> keyMetrics u ''baz'' = Some (SNum 123)
     \<and> cachedMetrics s' = Some u \<and> metricsFile s' = File ''growth''"
proof -
  let ?m = "\<lparr>thingsShipped = 2, revenueTotal = 100, currentStrategy = ''growth'',
             keyMetrics = [''foo'' \<mapsto> SStr ''bar'']\<rparr>"
  let ?s = "\<lparr>cachedMetrics = Some ?m, metricsFile = Absent, writeFault = None,
             apiKeyPresent = False, remoteCreates = []\<rparr>"
  let ?p = "\<lparr>thingsShippedP = Some 5, revenueTotalP = None, currentStrategyP = None,
             keyMetricsP = Some [''baz'' \<mapsto> SNum 123]\<rparr>"
  have w: "writeFault ?s = None"
    and c: "?m = fst (getMetrics (\<lambda>txt. Inl (NonError txt)) ?s)"
    by (simp_all add: getMetrics_def)
  from updateMetrics_merges_and_persists [OF w c, of currentStrategy ?p]
  obtain u s' where
    "updateMetrics (\<lambda>txt. Inl (NonError txt)) currentStrategy ?p ?s = (Inr u, s')"
    "thingsShipped u = 5" "revenueTotal u = 100" "currentStrategy u = ''growth''"
    "keyMetrics u = [''foo'' \<mapsto> SStr ''bar''] ++ [''baz'' \<mapsto> SNum 123]"
    "cachedMetrics s' = Some u" "metricsFile s' = File (currentStrategy u)"
    by auto
  then show ?thesis by auto
qed

subsection \<open>Scheduler\<close>

text \<open>
  Claim C9. For every task name and handler, registering with a schedule that the cron
  validator rejects logs an error and leaves the registry as it was, so the status
  query returns what it returned before and a name that was not listed is still not
  listed; registering with a schedule the validator accepts appends the task, and the
  status query lists its name and schedule last.
\<close>

theorem registerTask_rejects_invalid_adds_valid:
  "(\<not> validate sched \<longrightarrow>
      logged (registerTask validate nm sched h s) =
        logged s @ [(LogError, ''Invalid cron schedule for task: '' @ nm)]
      \<and> tasks (registerTask validate nm sched h s) = tasks s
      \<and> getSchedulerStatus (registerTask validate nm sched h s) = getSchedulerStatus s
      \<and> (nm \<notin> fst ` set (getSchedulerStatus s) \<longrightarrow>
           nm \<notin> fst ` set (getSchedulerStatus (registerTask validate nm sched h s))))
   \<and> (validate sched \<longrightarrow>
      tasks (registerTask validate nm sched h s) =
        tasks s @ [\<lparr>name = nm, schedule = sched, handler = h, job = False\<rparr>]
      \<and> getSchedulerStatus (registerTask validate nm sched h s) =
          getSchedulerStatus s @ [(nm, sched)])"
  by (simp add: registerTask_def getSchedulerStatus_def)

theorem registerTask_rejects_invalid_adds_valid_witness:
  "getSchedulerStatus
     (registerTask (\<lambda>e. e = ''50 * * * *'') ''broken'' ''every hour'' ()
        \<lparr>tasks = [], logged = []\<rparr>) = []
   \<and> logged
     (registerTask (\<lambda>e. e = ''50 * * * *'') ''broken'' ''every hour'' ()
        \<lparr>tasks = [], logged = []\<rparr>) = [(LogError, ''Invalid cron schedule for task: broken'')]
   \<and> getSchedulerStatus
     (registerTask (\<lambda>e. e = ''50 * * * *'') ''hourlyUpdate'' ''50 * * * *'' ()
        \<lparr>tasks = [], logged = []\<rparr>) = [(''hourlyUpdate'', ''50 * * * *'')]"
  using registerTask_rejects_invalid_adds_valid
      [of "\<lambda>e. e = ''50 * * * *''" "''every hour''" "''broken''" "()"
          "\<lparr>tasks = [], logged = []\<rparr>"]
    registerTask_rejects_invalid_adds_valid
      [of "\<lambda>e. e = ''50 * * * *''" "''50 * * * *''" "''hourlyUpdate''" "()"
          "\<lparr>tasks = [], logged = []\<rparr>"]
  by (simp add: getSchedulerStatus_def)

subsection \<open>Content pipeline\<close>

lemma trim_blank:
  assumes "\<forall>c\<in>set s. isSpace c"
  shows "trim s = []"
proof -
  from assms have blank: "dropWhile isSpace s = []"
    by (induction s) simp_all
  show ?thesis unfolding trim_def blank by simp
qed

lemma parseContent_blank:
  assumes "content response = None
           \<or> (\<exists>s. content response = Some s \<and> (\<forall>c\<in>set s. isSpace c))"
  shows "parseContent response = Inl emptyResponseError"
  using assms by (auto simp: parseContent_def trim_blank)

lemma empty_response_message:
  "includesStr ''Empty response content from Claude'' ''Empty response''"
  by simp

text \<open>
  Claim C3. For every response whose content is missing, empty or white space only,
  \<open>processHourlyOutput\<close> returns the result with every flag false and a single error,
  which contains \<open>Empty response\<close>, and it calls no dependency.
\<close>

theorem processHourlyOutput_empty_content:
  assumes "content response = None
           \<or> (\<exists>s. content response = Some s \<and> (\<forall>c\<in>set s. isSpace c))"
  shows "\<exists>msg. processHourlyOutput now response d h deps =
           (\<lparr>success = False, localSaved = False, memorySaved = False, deployed = False,
             metricsUpdated = False, errors = [msg]\<rparr>, [])
         \<and> includesStr msg ''Empty response''"
  using parseContent_blank [OF assms] empty_response_message
  by (simp add: processHourlyOutput_def emptyResponseError_def createFailedResult_def)

theorem processHourlyOutput_empty_content_witness:
  "\<exists>msg. processHourlyOutput ''2025-01-15T10:00:00.000Z''
            \<lparr>content = Some [CHR 0x20, CHR 0x20, CHR 0x0A, CHR 0x09]\<rparr> 10 14 exampleDeps =
           (\<lparr>success = False, localSaved = False, memorySaved = False, deployed = False,
             metricsUpdated = False, errors = [msg]\<rparr>, [])
         \<and> includesStr msg ''Empty response''"
  using processHourlyOutput_empty_content
    [of "\<lparr>content = Some [CHR 0x20, CHR 0x20, CHR 0x0A, CHR 0x09]\<rparr>"]
  by (simp add: isSpace_def)

text \<open>The last assignment of a run, \<open>success = localSaved\<close>.\<close>

lemma finish_fst:
  "localSaved (fst (finish st)) = localSaved (fst st)"
  "success (fst (finish st)) = localSaved (fst st)"
  "errors (fst (finish st)) = errors (fst st)"
  by (cases st, simp)+

lemma processHourlyOutput_success:
  "success (fst (processHourlyOutput now response d h deps)) =
     localSaved (fst (processHourlyOutput now response d h deps))"
  by (simp add: processHourlyOutput_def createFailedResult_def Let_def finish_fst
      split: sum.splits prod.splits)

lemma processJournalOutput_success:
  "success (fst (processJournalOutput now response d deps)) =
     localSaved (fst (processJournalOutput now response d deps))"
  by (simp add: processJournalOutput_def createFailedResult_def Let_def finish_fst
      split: sum.splits prod.splits)

text \<open>
  Steps 3 to 6 of either pipeline after a write that rejected, for any outcomes of the
  three later calls.
\<close>

lemma stages_after_rejected_write:
  "finish (deployStep triggered (landingStep landed (storeInMemory mdep stored
      (saveLocally wdep (Inl e) (initialResult, calls))))) =
     (\<lparr>success = False, localSaved = False, memorySaved = (stored = Inr True),
       deployed = (triggered = Inr True), metricsUpdated = (landed = Inr ()),
       errors =
         [''Local save failed: '' @ messageOr e ''Failed to save locally'']
         @ (case stored of
              Inr b \<Rightarrow> if b then [] else [''Memory store returned unsuccessful'']
            | Inl err \<Rightarrow> [''Memory store failed: '' @ messageOr err ''Memory store error''])
         @ (case landed of
              Inr u \<Rightarrow> []
            | Inl err \<Rightarrow> [''Landing update failed: '' @ messageOr err ''Landing update error''])
         @ (case triggered of
              Inr b \<Rightarrow> if b then [] else [''Deploy trigger returned false'']
            | Inl err \<Rightarrow> [''Deploy failed: '' @ messageOr err ''Deploy error''])\<rparr>,
      calls @ [(wdep, Threw), (mdep, outcomeOf stored), (UpdateLanding, outcomeOf landed),
               (TriggerDeploy, outcomeOf triggered)])"
  by (cases stored; cases landed; cases triggered) (simp_all add: initialResult_def)

text \<open>
  Claim C1. For every response with non-empty trimmed content and every set of
  dependencies whose status calls succeed, in \<open>processHourlyOutput\<close> and in
  \<open>processJournalOutput\<close>: if the local write (\<open>writeHourlyUpdate\<close>,
  \<open>writeDailyJournal\<close>) rejects with \<open>e\<close>, the result has \<open>localSaved\<close> and
  \<open>success\<close> false and the message of \<open>e\<close> first among its errors, under
  \<open>Local save failed\<close>; the remote memory store, the landing update and the deploy
  trigger are still called, in this order and with the arguments of a normal run, and
  each sets its flag and adds its error as its own outcome says. In every run, whatever
  the response and the dependencies, the \<open>success\<close> of the result equals its
  \<open>localSaved\<close>.
\<close>

theorem local_write_failure_continues:
  "(\<forall>trimmed runwayStatus metrics e.
      parseContent response = Inr trimmed
      \<and> runwayTracker_getRunwayStatus deps = Inr runwayStatus
      \<and> metricsTracker_getMetrics deps = Inr metrics
      \<and> contentWriter_writeHourlyUpdate deps d h trimmed
          \<lparr>day = d, hour = Some h, timestamp = now, runway_days = runwayDays runwayStatus,
           urgency = urgencyLevel runwayStatus, current_strategy = strategyNow metrics,
           word_count = countWords trimmed\<rparr> = Inl e
      \<longrightarrow>
      (let stored = memoryStore_storeHourlyUpdate deps trimmed
             \<lparr>memType = ''hourly_update'', memDay = d, memHour = Some h, memTimestamp = now,
              memRunwayDays = runwayDays runwayStatus,
              memCurrentStrategy = strategyNow metrics\<rparr>;
           landed = contentWriter_updateLanding deps d (daysRemaining runwayStatus)
             (runwayDays runwayStatus) (shippedNow metrics) (revenueNow metrics)
             (strategyNow metrics);
           triggered = deployTrigger_triggerDeploy deps
       in processHourlyOutput now response d h deps =
            (\<lparr>success = False, localSaved = False, memorySaved = (stored = Inr True),
              deployed = (triggered = Inr True), metricsUpdated = (landed = Inr ()),
              errors =
                [''Local save failed: '' @ messageOr e ''Failed to save locally'']
                @ (case stored of
                     Inr b \<Rightarrow> if b then [] else [''Memory store returned unsuccessful'']
                   | Inl err \<Rightarrow> [''Memory store failed: '' @ messageOr err ''Memory store error''])
                @ (case landed of
                     Inr u \<Rightarrow> []
                   | Inl err \<Rightarrow>
                       [''Landing update failed: '' @ messageOr err ''Landing update error''])
                @ (case triggered of
                     Inr b \<Rightarrow> if b then [] else [''Deploy trigger returned false'']
                   | Inl err \<Rightarrow> [''Deploy failed: '' @ messageOr err ''Deploy error''])\<rparr>,
             [(GetRunwayStatus, Returned), (GetMetrics, Returned), (WriteHourlyUpdate, Threw),
              (StoreHourlyUpdate, outcomeOf stored), (UpdateLanding, outcomeOf landed),
              (TriggerDeploy, outcomeOf triggered)])))
   \<and> success (fst (processHourlyOutput now response d h deps)) =
       localSaved (fst (processHourlyOutput now response d h deps))
   \<and> (\<forall>trimmed runwayStatus metrics e.
      parseContent response = Inr trimmed
      \<and> runwayTracker_getRunwayStatus deps = Inr runwayStatus
      \<and> metricsTracker_getMetrics deps = Inr metrics
      \<and> contentWriter_writeDailyJournal deps d trimmed
          \<lparr>day = d, hour = None, timestamp = now, runway_days = runwayDays runwayStatus,
           urgency = urgencyLevel runwayStatus, current_strategy = strategyNow metrics,
           word_count = countWords trimmed\<rparr> = Inl e
      \<longrightarrow>
      (let stored = memoryStore_storeDailyJournal deps trimmed
             \<lparr>memType = ''daily_journal'', memDay = d, memHour = None, memTimestamp = now,
              memRunwayDays = runwayDays runwayStatus,
              memCurrentStrategy = strategyNow metrics\<rparr>;
           landed = contentWriter_updateLanding deps d (daysRemaining runwayStatus)
             (runwayDays runwayStatus) (shippedNow metrics) (revenueNow metrics)
             (strategyNow metrics);
           triggered = deployTrigger_triggerDeploy deps
       in processJournalOutput now response d deps =
            (\<lparr>success = False, localSaved = False, memorySaved = (stored = Inr True),
              deployed = (triggered = Inr True), metricsUpdated = (landed = Inr ()),
              errors =
                [''Local save failed: '' @ messageOr e ''Failed to save locally'']
                @ (case stored of
                     Inr b \<Rightarrow> if b then [] else [''Memory store returned unsuccessful'']
                   | Inl err \<Rightarrow> [''Memory store failed: '' @ messageOr err ''Memory store error''])
                @ (case landed of
                     Inr u \<Rightarrow> []
                   | Inl err \<Rightarrow>
                       [''Landing update failed: '' @ messageOr err ''Landing update error''])
                @ (case triggered of
                     Inr b \<Rightarrow> if b then [] else [''Deploy trigger returned false'']
                   | Inl err \<Rightarrow> [''Deploy failed: '' @ messageOr err ''Deploy error''])\<rparr>,
             [(GetRunwayStatus, Returned), (GetMetrics, Returned), (WriteDailyJournal, Threw),
              (StoreDailyJournal, outcomeOf stored), (UpdateLanding, outcomeOf landed),
              (TriggerDeploy, outcomeOf triggered)])))
   \<and> success (fst (processJournalOutput now response d deps)) =
       localSaved (fst (processJournalOutput now response d deps))"
  apply (intro conjI allI impI; (elim conjE)?)
  subgoal
    by (simp add: processHourlyOutput_def Let_def gatherStatus_def gatherLog_def
        stages_after_rejected_write
        del: saveLocally.simps storeInMemory.simps landingStep.simps deployStep.simps
          finish.simps)
  subgoal
    by (rule processHourlyOutput_success)
  subgoal
    by (simp add: processJournalOutput_def Let_def gatherStatus_def gatherLog_def
        stages_after_rejected_write
        del: saveLocally.simps storeInMemory.simps landingStep.simps deployStep.simps
          finish.simps)
  subgoal
    by (rule processJournalOutput_success)
  done

text \<open>The run of the test suite in which the content writer rejects with \<open>Disk full\<close>.\<close>

lemma runway_diskFull:
  "runwayTracker_getRunwayStatus diskFullDeps =
     Inr \<lparr>currentDay = 10, daysRemaining = 90, runwayDays = 8, urgencyLevel = ''focused''\<rparr>"
  by (simp add: diskFullDeps_def exampleDeps_def)

lemma metrics_diskFull:
  "metricsTracker_getMetrics diskFullDeps =
     Inr \<lparr>shippedNow = 5, revenueNow = 100, strategyNow = ''Build valuable tools''\<rparr>"
  by (simp add: diskFullDeps_def exampleDeps_def)

lemma writers_diskFull:
  "contentWriter_writeHourlyUpdate diskFullDeps d h c m = Inl (ErrorObj ''Error'' ''Disk full'' None)"
  "contentWriter_writeDailyJournal diskFullDeps d c m = Inl (ErrorObj ''Error'' ''Disk full'' None)"
  by (simp_all add: diskFullDeps_def)

lemma later_stages_diskFull:
  "memoryStore_storeHourlyUpdate diskFullDeps c mm = Inr True"
  "memoryStore_storeDailyJournal diskFullDeps c mm = Inr True"
  "contentWriter_updateLanding diskFullDeps cd dr rd ts rv cs = Inr ()"
  "deployTrigger_triggerDeploy diskFullDeps = Inr True"
  by (simp_all add: diskFullDeps_def exampleDeps_def)

lemma parse_example:
  "parseContent \<lparr>content = Some ''Test hourly update''\<rparr> = Inr ''Test hourly update''"
  by (simp add: parseContent_def trim_def isSpace_def)

theorem local_write_failure_continues_witness:
  "processHourlyOutput ''2025-01-15T10:00:00.000Z''
      \<lparr>content = Some ''Test hourly update''\<rparr> 10 14 diskFullDeps =
     (\<lparr>success = False, localSaved = False, memorySaved = True, deployed = True,
       metricsUpdated = True, errors = [''Local save failed: Disk full'']\<rparr>,
      [(GetRunwayStatus, Returned), (GetMetrics, Returned), (WriteHourlyUpdate, Threw),
       (StoreHourlyUpdate, Returned), (UpdateLanding, Returned), (TriggerDeploy, Returned)])
   \<and> processJournalOutput ''2025-01-15T23:00:00.000Z''
      \<lparr>content = Some ''Test hourly update''\<rparr> 10 diskFullDeps =
     (\<lparr>success = False, localSaved = False, memorySaved = True, deployed = True,
       metricsUpdated = True, errors = [''Local save failed: Disk full'']\<rparr>,
      [(GetRunwayStatus, Returned), (GetMetrics, Returned), (WriteDailyJournal, Threw),
       (StoreDailyJournal, Returned), (UpdateLanding, Returned), (TriggerDeploy, Returned)])"
proof -
  let ?response = "\<lparr>content = Some ''Test hourly update''\<rparr>"
  let ?runway = "\<lparr>currentDay = 10, daysRemaining = 90, runwayDays = 8, urgencyLevel = ''focused''\<rparr>"
  let ?metrics = "\<lparr>shippedNow = 5, revenueNow = 100, strategyNow = ''Build valuable tools''\<rparr>"
  let ?e = "ErrorObj ''Error'' ''Disk full'' None"
  have hourly:
    "parseContent ?response = Inr ''Test hourly update''
     \<and> runwayTracker_getRunwayStatus diskFullDeps = Inr ?runway
     \<and> metricsTracker_getMetrics diskFullDeps = Inr ?metrics
     \<and> contentWriter_writeHourlyUpdate diskFullDeps 10 14 ''Test hourly update''
          \<lparr>day = 10, hour = Some 14, timestamp = ''2025-01-15T10:00:00.000Z'',
           runway_days = runwayDays ?runway, urgency = urgencyLevel ?runway,
           current_strategy = strategyNow ?metrics,
           word_count = countWords ''Test hourly update''\<rparr> = Inl ?e"
    by (simp only: parse_example runway_diskFull metrics_diskFull writers_diskFull simp_thms)
  have journal:
    "parseContent ?response = Inr ''Test hourly update''
     \<and> runwayTracker_getRunwayStatus diskFullDeps = Inr ?runway
     \<and> metricsTracker_getMetrics diskFullDeps = Inr ?metrics
     \<and> contentWriter_writeDailyJournal diskFullDeps 10 ''Test hourly update''
          \<lparr>day = 10, hour = None, timestamp = ''2025-01-15T23:00:00.000Z'',
           runway_days = runwayDays ?runway, urgency = urgencyLevel ?runway,
           current_strategy = strategyNow ?metrics,
           word_count = countWords ''Test hourly update''\<rparr> = Inl ?e"
    by (simp only: parse_example runway_diskFull metrics_diskFull writers_diskFull simp_thms)
  from local_write_failure_continues
      [where response = ?response and deps = diskFullDeps and d = 10 and h = 14
         and now = "''2025-01-15T10:00:00.000Z''",
       THEN conjunct1, rule_format, OF hourly]
    local_write_failure_continues
      [where response = ?response and deps = diskFullDeps and d = 10 and h = 14
         and now = "''2025-01-15T23:00:00.000Z''",
       THEN conjunct2, THEN conjunct2, THEN conjunct1, rule_format, OF journal]
  show ?thesis
    by (simp add: Let_def later_stages_diskFull)
qed

subsection \<open>Completion client\<close>

lemma includesStr_map: "includesStr hay needle \<Longrightarrow> includesStr (map f hay) (map f needle)"
proof (induction hay)
  case Nil
  then show ?case by simp
next
  case (Cons c cs)
  then show ?case
    using map_mono_prefix [of needle "c # cs" f] by auto
qed

lemma lower_rate_limit: "toLowerCase ''rate limit'' = ''rate limit''"
  by (simp add: toLowerCase_def lowerChar_def)

lemma includes_rate_limit:
  "includesStr m ''rate limit'' \<Longrightarrow> includesStr (toLowerCase m) ''rate limit''"
  using includesStr_map [of m "''rate limit''" lowerChar] lower_rate_limit
  by (simp add: toLowerCase_def)

lemma generateContent_all_fail:
  assumes "t 1 = Inl e1" "t 2 = Inl e2" "t 3 = Inl e3"
  shows "generateContent t =
    (Inl \<lparr>clientMessage = ''Failed after 3 attempts: '' @ errMessage (asError e3),
          cause = Some (asError e3), rateLimited = isRateLimitError (asError e3)\<rparr>,
     [ApiCall 1, Sleep 1000, ApiCall 2, Sleep 2000, ApiCall 3])"
  using assms
  by (simp add: generateContent_def MAX_RETRIES_def BASE_DELAY_MS_def numeral_2_eq_2 numeral_3_eq_3)

lemma generateContent_trace:
  "snd (generateContent t) \<in>
     {[ApiCall 1], [ApiCall 1, Sleep 1000, ApiCall 2],
      [ApiCall 1, Sleep 1000, ApiCall 2, Sleep 2000, ApiCall 3]}"
  by (simp add: generateContent_def MAX_RETRIES_def BASE_DELAY_MS_def numeral_2_eq_2 numeral_3_eq_3 split: sum.splits)

lemma isRateLimitError_iff:
  "isRateLimitError (ErrorObj n m st) =
     (n = ''RateLimitError'' \<or> includesStr (toLowerCase m) ''rate limit'' \<or> st = Some 429)"
  by simp

text \<open>
  Claim C4. For every behaviour of the transport, \<open>generateContent\<close> calls it at most
  three times, and sleeps 1000 ms after a failed first attempt and 2000 ms after a
  failed second one, never after the third. When all three attempts fail, the transport
  has been called exactly three times and the client raises a \<open>ClaudeClientError\<close>
  whose cause is the error of the last attempt (wrapped in an \<open>Error\<close> when what was
  thrown is not one) and whose rate-limit flag is set exactly when that error has the
  name \<open>RateLimitError\<close>, or a message that contains \<open>rate limit\<close> in any letter case,
  or the status 429, and is unset for every other error.
\<close>

theorem generateContent_bounded_retry:
  "snd (generateContent t) \<in>
     {[ApiCall 1], [ApiCall 1, Sleep 1000, ApiCall 2],
      [ApiCall 1, Sleep 1000, ApiCall 2, Sleep 2000, ApiCall 3]}
   \<and> (\<forall>e1 e2 n m st. t 1 = Inl e1 \<and> t 2 = Inl e2 \<and> t 3 = Inl (ErrorObj n m st) \<longrightarrow>
        generateContent t =
          (Inl \<lparr>clientMessage = ''Failed after 3 attempts: '' @ m,
                cause = Some (ErrorObj n m st),
                rateLimited =
                  (n = ''RateLimitError'' \<or> includesStr (toLowerCase m) ''rate limit''
                   \<or> st = Some 429)\<rparr>,
           [ApiCall 1, Sleep 1000, ApiCall 2, Sleep 2000, ApiCall 3]))
   \<and> (\<forall>e1 e2 r. t 1 = Inl e1 \<and> t 2 = Inl e2 \<and> t 3 = Inl (NonError r) \<longrightarrow>
        generateContent t =
          (Inl \<lparr>clientMessage = ''Failed after 3 attempts: '' @ r,
                cause = Some (ErrorObj ''Error'' r None),
                rateLimited = includesStr (toLowerCase r) ''rate limit''\<rparr>,
           [ApiCall 1, Sleep 1000, ApiCall 2, Sleep 2000, ApiCall 3]))
   \<and> (\<forall>m. includesStr m ''rate limit'' \<longrightarrow> includesStr (toLowerCase m) ''rate limit'')"
  apply (intro conjI allI impI; (elim conjE)?)
  subgoal
    by (rule generateContent_trace)
  subgoal for e1 e2 n m st
    using generateContent_all_fail [of t e1 e2 "ErrorObj n m st"]
    by (simp add: isRateLimitError_iff del: isRateLimitError.simps)
  subgoal for e1 e2 r
    using generateContent_all_fail [of t e1 e2 "NonError r"]
    by simp
  subgoal for m
    by (rule includes_rate_limit)
  done

text \<open>
  Two transports that always fail: one with the rate-limit error of the service, one
  with the \<open>Persistent error\<close> of the test suite, for which the flag is unset.
\<close>

lemma persistent_error_not_rate_limit:
  "\<not> includesStr (toLowerCase ''Persistent error'') ''rate limit''"
  by (simp add: toLowerCase_def lowerChar_def)

theorem generateContent_bounded_retry_witness:
  "generateContent (\<lambda>k. Inl (ErrorObj ''RateLimitError'' ''429 Too Many Requests'' (Some 429))) =
     (Inl \<lparr>clientMessage = ''Failed after 3 attempts: 429 Too Many Requests'',
           cause = Some (ErrorObj ''RateLimitError'' ''429 Too Many Requests'' (Some 429)),
           rateLimited = True\<rparr>,
      [ApiCall 1, Sleep 1000, ApiCall 2, Sleep 2000, ApiCall 3])
   \<and> generateContent (\<lambda>k. Inl (ErrorObj ''Error'' ''Persistent error'' None)) =
     (Inl \<lparr>clientMessage = ''Failed after 3 attempts: Persistent error'',
           cause = Some (ErrorObj ''Error'' ''Persistent error'' None),
           rateLimited = False\<rparr>,
      [ApiCall 1, Sleep 1000, ApiCall 2, Sleep 2000, ApiCall 3])"
proof -
  let ?limited = "ErrorObj ''RateLimitError'' ''429 Too Many Requests'' (Some 429)"
  let ?persistent = "ErrorObj ''Error'' ''Persistent error'' None"
  have limited:
    "(\<lambda>k::nat. Inl ?limited :: thrown + ApiResponse) 1 = Inl ?limited
      \<and> (\<lambda>k::nat. Inl ?limited :: thrown + ApiResponse) 2 = Inl ?limited
      \<and> (\<lambda>k::nat. Inl ?limited :: thrown + ApiResponse) 3 = Inl ?limited"
    by simp
  have persistent:
    "(\<lambda>k::nat. Inl ?persistent :: thrown + ApiResponse) 1 = Inl ?persistent
      \<and> (\<lambda>k::nat. Inl ?persistent :: thrown + ApiResponse) 2 = Inl ?persistent
      \<and> (\<lambda>k::nat. Inl ?persistent :: thrown + ApiResponse) 3 = Inl ?persistent"
    by simp
  from generateContent_bounded_retry
      [of "\<lambda>k. Inl ?limited", THEN conjunct2, THEN conjunct1, rule_format, OF limited]
    generateContent_bounded_retry
      [of "\<lambda>k. Inl ?persistent", THEN conjunct2, THEN conjunct1, rule_format, OF persistent]
    persistent_error_not_rate_limit
  show ?thesis
    by simp
qed

subsection \<open>Deploy trigger\<close>

lemma triggerDeploy_traces:
  "snd (triggerDeploy fetch) \<in>
     {[Post 0], [Post 0, Delay 1000, Post 1],
      [Post 0, Delay 1000, Post 1, Delay 2000, Post 2]}"
  by (simp add: triggerDeploy_def maxRetries_def getBackoffDelay_def numeral_2_eq_2
      numeral_3_eq_3 split: sum.splits bool.splits)

lemma triggerDeploy_at_most_three_posts: "posts (snd (triggerDeploy fetch)) \<le> 3"
  using triggerDeploy_traces [of fetch] by (auto simp: posts_def)

text \<open>
  An attempt succeeds exactly when the response is \<open>ok\<close> and its body parses to a value
  other than \<open>null\<close>.
\<close>

lemma postOnce_True_iff:
  "postOnce outcome = Inr True \<longleftrightarrow>
     (\<exists>response data. outcome = Inr response \<and> ok response
        \<and> jsonBody response = Inr data \<and> data \<noteq> JNull)"
proof (cases outcome)
  case (Inl e)
  then show ?thesis by (simp add: postOnce_def)
next
  case (Inr response)
  show ?thesis
  proof (cases "jsonBody response")
    case (Inl e)
    with Inr show ?thesis by (simp add: postOnce_def)
  next
    case body: (Inr data)
    with Inr show ?thesis by (cases data) (simp_all add: postOnce_def)
  qed
qed

lemma triggerDeploy_first_attempt:
  assumes "postOnce (fetch 0) = Inr True"
  shows "triggerDeploy fetch = (True, [Post 0])"
  using assms by (simp add: triggerDeploy_def maxRetries_def)

lemma triggerDeploy_third_attempt:
  assumes "postOnce (fetch 0) \<noteq> Inr True" and "postOnce (fetch 1) \<noteq> Inr True"
    and "postOnce (fetch 2) = Inr True"
  shows "triggerDeploy fetch = (True, [Post 0, Delay 1000, Post 1, Delay 2000, Post 2])"
  using assms
  by (simp add: triggerDeploy_def maxRetries_def getBackoffDelay_def numeral_2_eq_2
      numeral_3_eq_3 split: sum.splits bool.splits)

lemma triggerDeploy_all_fail:
  assumes "postOnce (fetch 0) \<noteq> Inr True" and "postOnce (fetch 1) \<noteq> Inr True"
    and "postOnce (fetch 2) \<noteq> Inr True"
  shows "triggerDeploy fetch = (False, [Post 0, Delay 1000, Post 1, Delay 2000, Post 2])"
  using assms
  by (simp add: triggerDeploy_def maxRetries_def getBackoffDelay_def numeral_2_eq_2
      numeral_3_eq_3 split: sum.splits bool.splits)

text \<open>
  Claim C5 at a transport whose every response is \<open>200\<close> with an empty body, for which
  \<open>response.json()\<close> rejects: the first response is a 2xx, and \<open>triggerDeploy\<close> posts
  three times and returns \<open>false\<close>.
\<close>

theorem triggerDeploy_ok_response_without_json_body:
  "ok \<lparr>status = 200,
       jsonBody = Inl (ErrorObj ''SyntaxError'' ''Unexpected end of JSON input'' None)\<rparr>
   \<and> triggerDeploy
       (\<lambda>k. Inr \<lparr>status = 200,
                  jsonBody = Inl (ErrorObj ''SyntaxError'' ''Unexpected end of JSON input'' None)\<rparr>)
     = (False, [Post 0, Delay 1000, Post 1, Delay 2000, Post 2])"
  by (simp add: triggerDeploy_def maxRetries_def postOnce_def ok_def getBackoffDelay_def
      numeral_2_eq_2 numeral_3_eq_3)

subsection \<open>Decision pipeline\<close>

lemma validateActivities_Inr_iff:
  "(validateActivities rt xs = Inr ()) = list_all wellFormedActivity xs"
proof (induction xs)
  case Nil
  then show ?case by simp
next
  case (Cons a xs)
  then show ?case
    by (cases a) (auto split: sum.splits)
qed

lemma validateActivities_Inl:
  "validateActivities rt xs = Inl e \<Longrightarrow> \<not> list_all wellFormedActivity xs"
  using validateActivities_Inr_iff [of rt xs] by simp

lemma validateActivities_Inr:
  "validateActivities rt xs = Inr u \<Longrightarrow> list_all wellFormedActivity xs"
  using validateActivities_Inr_iff [of rt xs] by simp

lemma validateDecision_Inr_iff:
  assumes "JSON_parse rt s = Inr v"
  shows "(\<exists>decision. validateDecision rt s = Inr decision) = wellFormedDecision v"
proof (cases v)
  case (JObj kvs)
  show ?thesis
    by (auto simp: validateDecision_def assms JObj split: option.splits sum.splits
        dest: validateActivities_Inl validateActivities_Inr)
qed (simp_all add: validateDecision_def assms)




text \<open>Conversely, a value that meets the conditions passes the validation.\<close>

lemma parseActivityDecision_accepts:
  assumes "parsedValue rt response = Some v" and "wellFormedDecision v"
  shows "\<exists>decision. parseActivityDecision rt response = Inr decision \<and> parsedObject decision = v"
proof -
  from assms(1) obtain trimmed where t: "parseContent response = Inr trimmed"
    and p: "JSON_parse rt (jsonText trimmed) = Inr v"
    by (auto simp: parsedValue_def split: sum.splits)
  from validateDecision_Inr_iff [OF p] assms(2) obtain decision where
    d: "validateDecision rt (jsonText trimmed) = Inr decision" by blast
  then have "parsedObject decision = v"
    by (auto simp: validateDecision_def p split: sum.splits option.splits)
  with t d show ?thesis by (simp add: parseActivityDecision_def)
qed















end
